theory Spec2Isabelle
  imports Main
begin

section \<open>Python strings\<close>

text \<open>
  A Python \<open>str\<close> is a sequence of Unicode code points, so it is modelled as a list of
  natural numbers. The Korean message literals of the program are written as their code
  points; ASCII literals go through \<open>ascii\<close>.
\<close>

type_synonym ustring = "nat list"

definition ascii :: "string \<Rightarrow> ustring" where
  "ascii s = map of_char s"

text \<open>\<open>str.isspace\<close> on one code point: the white-space set of CPython.\<close>

definition py_isspace :: "nat \<Rightarrow> bool" where
  "py_isspace c \<longleftrightarrow>
     (0x09 \<le> c \<and> c \<le> 0x0D) \<or> (0x1C \<le> c \<and> c \<le> 0x20) \<or> c = 0x85 \<or> c = 0xA0 \<or>
     c = 0x1680 \<or> (0x2000 \<le> c \<and> c \<le> 0x200A) \<or> c = 0x2028 \<or> c = 0x2029 \<or>
     c = 0x202F \<or> c = 0x205F \<or> c = 0x3000"

text \<open>\<open>s.strip()\<close>: leading and trailing white space removed.\<close>

definition py_strip :: "ustring \<Rightarrow> ustring" where
  "py_strip s = rev (dropWhile py_isspace (rev (dropWhile py_isspace s)))"

text \<open>\<open>a or b\<close> on strings: \<open>a\<close> when it is non-empty, else \<open>b\<close>.\<close>

definition por :: "ustring \<Rightarrow> ustring \<Rightarrow> ustring" where
  "por a b = (if a \<noteq> [] then a else b)"

definition is_ascii :: "ustring \<Rightarrow> bool" where
  "is_ascii s \<longleftrightarrow> list_all (\<lambda>c. c < 128) s"

definition ascii_lower :: "nat \<Rightarrow> nat" where
  "ascii_lower c = (if 65 \<le> c \<and> c \<le> 90 then c + 32 else c)"

text \<open>
  \<open>s.lower()\<close>. On an ASCII string it maps \<open>A\<close>..\<open>Z\<close> to \<open>a\<close>..\<open>z\<close>. On any other
  string the result depends on the Unicode case tables of the interpreter (and on context,
  as for the final sigma); those tables are the parameter \<open>ulower\<close>.
\<close>

definition py_lower :: "(ustring \<Rightarrow> ustring) \<Rightarrow> ustring \<Rightarrow> ustring" where
  "py_lower ulower s = (if is_ascii s then map ascii_lower s else ulower s)"

text \<open>
  Two strings differ only in letter case: they have the same length and are ASCII, and at
  each position the characters agree after lower-casing.
\<close>

definition differs_only_in_case :: "ustring \<Rightarrow> ustring \<Rightarrow> bool" where
  "differs_only_in_case a b \<longleftrightarrow>
     list_all2 (\<lambda>x y. x < 128 \<and> y < 128 \<and> ascii_lower x = ascii_lower y) a b"

section \<open>Paths\<close>

text \<open>
  A \<open>pathlib.Path\<close> is modelled by its directory part and its final component, which is
  all the program looks at. \<open>str(p)\<close> joins the two with the separator.
\<close>

record path =
  parent :: ustring
  name :: ustring

definition os_sep :: ustring where
  "os_sep = [0x5C]"

definition path_str :: "path \<Rightarrow> ustring" where
  "path_str p = parent p @ os_sep @ name p"

text \<open>\<open>s.rfind(c)\<close>: the index of the last occurrence, \<open>None\<close> for Python's \<open>-1\<close>.\<close>

fun rfind :: "nat \<Rightarrow> ustring \<Rightarrow> nat option" where
  "rfind c [] = None"
| "rfind c (x # xs) =
     (case rfind c xs of
        Some i \<Rightarrow> Some (Suc i)
      | None \<Rightarrow> if x = c then Some 0 else None)"

text \<open>
  \<open>p.suffix\<close>: the final component from its last dot on, provided the dot is neither the
  first nor the last character of the component; otherwise the empty string.
\<close>

definition suffix :: "path \<Rightarrow> ustring" where
  "suffix p =
     (case rfind 0x2E (name p) of
        None \<Rightarrow> []
      | Some i \<Rightarrow> if 0 < i \<and> i < length (name p) - 1 then drop i (name p) else [])"

text \<open>
  \<open>p.with_suffix(s)\<close>: the old suffix is cut off the final component and \<open>s\<close> is appended.
  pathlib raises \<open>ValueError\<close> for an invalid \<open>s\<close> or an empty final component; the program
  calls it with \<open>".wav"\<close> on a path whose suffix is non-empty, where neither can happen.
\<close>

definition with_suffix :: "path \<Rightarrow> ustring \<Rightarrow> path" where
  "with_suffix p s =
     p\<lparr>name := take (length (name p) - length (suffix p)) (name p) @ s\<rparr>"

section \<open>Exceptions, processes and the world\<close>

datatype pyexn =
    ValueError ustring
  | RuntimeError ustring
  | FileNotFoundError ustring
  | AttributeError ustring

text \<open>\<open>str(exc)\<close>.\<close>

fun exn_str :: "pyexn \<Rightarrow> ustring" where
  "exn_str (ValueError m) = m"
| "exn_str (RuntimeError m) = m"
| "exn_str (FileNotFoundError m) = m"
| "exn_str (AttributeError m) = m"

type_synonym files = "path \<Rightarrow> nat list option"
type_synonym environment = "ustring \<Rightarrow> ustring option"

text \<open>
  What launching an external program does: either the executable cannot be located (the
  operating system's message is kept), or the process runs to its end with an exit code,
  its captured standard output and standard error as decoded text, and the file system it
  leaves behind.
\<close>

datatype outcome =
    NotFound ustring
  | Exited int ustring ustring files

text \<open>\<open>subprocess.CompletedProcess\<close>.\<close>

datatype completed = Completed (returncode: int) (stdout: ustring) (stderr: ustring)

text \<open>
  The collaborators the program does not contain: the Unicode case tables, the UTF-8
  decoder with replacement used for reading text files, the random UUID source and the
  external programs.
\<close>

record system =
  unicode_lower :: "ustring \<Rightarrow> ustring"
  utf8_decode :: "nat list \<Rightarrow> ustring"
  uuid4_hex :: "nat \<Rightarrow> ustring"
  spawn :: "ustring list \<Rightarrow> environment \<Rightarrow> files \<Rightarrow> outcome"

text \<open>\<open>st.session_state\<close> with its two keys, after the \<open>setdefault\<close> calls.\<close>

record session_state =
  transcription :: ustring
  last_error :: ustring

text \<open>
  The state the program reads and writes: regular files with their bytes, directories,
  \<open>os.environ\<close>, the log of \<open>subprocess.run\<close> calls (command line and environment handed to
  the child), the number of UUIDs drawn so far and the session state.
\<close>

record world =
  fs :: files
  dirs :: "ustring set"
  environ :: environment
  run_log :: "(ustring list \<times> environment) list"
  uuid_count :: nat
  session :: session_state

text \<open>The values read from \<open>config.json\<close> at start-up, as the strings of their paths.\<close>

record config =
  whisper_cli :: ustring
  model_path :: ustring
  youtube_download_dir :: ustring

definition path_exists :: "world \<Rightarrow> path \<Rightarrow> bool" where
  "path_exists w p \<longleftrightarrow> fs w p \<noteq> None"

text \<open>\<open>p.unlink(missing_ok=True)\<close>.\<close>

definition unlink_missing_ok :: "path \<Rightarrow> world \<Rightarrow> world" where
  "unlink_missing_ok p w = w\<lparr>fs := (fs w)(p := None)\<rparr>"

text \<open>\<open>d.mkdir(parents=True, exist_ok=True)\<close>.\<close>

definition mkdir_parents :: "ustring \<Rightarrow> world \<Rightarrow> world" where
  "mkdir_parents d w = w\<lparr>dirs := insert d (dirs w)\<rparr>"

text \<open>
  \<open>subprocess.run(cmd, capture_output=True, encoding="utf-8", errors="replace", env=env)\<close>.
  With \<open>env=None\<close> the child inherits \<open>os.environ\<close>. The result is \<open>Inl\<close> with the message
  of the \<open>FileNotFoundError\<close> when the executable cannot be located.
\<close>

definition subprocess_run ::
  "system \<Rightarrow> ustring list \<Rightarrow> environment option \<Rightarrow> world \<Rightarrow> (ustring + completed) \<times> world" where
  "subprocess_run sys cmd env w =
     (let child_env = (case env of None \<Rightarrow> environ w | Some e \<Rightarrow> e);
          w1 = w\<lparr>run_log := run_log w @ [(cmd, child_env)]\<rparr>
      in case spawn sys cmd child_env (fs w) of
           NotFound m \<Rightarrow> (Inl m, w1)
         | Exited rc out err fs' \<Rightarrow> (Inr (Completed rc out err), w1\<lparr>fs := fs'\<rparr>))"

section \<open>Message literals\<close>

definition msg_unsupported :: ustring where
  "msg_unsupported = [0xC9C0, 0xC6D0, 0xD558, 0xC9C0] @ ascii '' '' @ [0xC54A, 0xB294] @ ascii '' ''
     @ [0xD30C, 0xC77C] @ ascii '' '' @ [0xD615, 0xC2DD, 0xC785, 0xB2C8, 0xB2E4] @ ascii '': ''"

definition msg_tool_missing_tail :: ustring where
  "msg_tool_missing_tail = ascii '' '' @ [0xBA85, 0xB839, 0xC744] @ ascii '' '' @ [0xCC3E, 0xC744]
     @ ascii '' '' @ [0xC218] @ ascii '' '' @ [0xC5C6, 0xC2B5, 0xB2C8, 0xB2E4] @ ascii ''. ''
     @ [0xC11C, 0xBC84] @ ascii '' '' @ [0xD658, 0xACBD, 0xC5D0] @ ascii '' ''
     @ [0xC124, 0xCE58, 0xB418, 0xC5B4] @ ascii '' '' @ [0xC788, 0xB294, 0xC9C0] @ ascii '' ''
     @ [0xD655, 0xC778, 0xD558, 0xC138, 0xC694] @ ascii ''.''"

definition msg_ffmpeg_missing :: ustring where
  "msg_ffmpeg_missing = ascii ''ffmpeg'' @ msg_tool_missing_tail"

definition msg_ffmpeg_generic :: ustring where
  "msg_ffmpeg_generic = ascii ''ffmpeg '' @ [0xBCC0, 0xD658, 0xC5D0] @ ascii '' ''
     @ [0xC2E4, 0xD328, 0xD588, 0xC2B5, 0xB2C8, 0xB2E4] @ ascii ''.''"

definition msg_ffmpeg_failed :: ustring where
  "msg_ffmpeg_failed = ascii ''ffmpeg '' @ [0xBCC0, 0xD658] @ ascii '' '' @ [0xC2E4, 0xD328] @ ascii '': ''"

definition msg_ytdlp_missing :: ustring where
  "msg_ytdlp_missing = ascii ''yt-dlp'' @ msg_tool_missing_tail"

definition msg_ytdlp_failed :: ustring where
  "msg_ytdlp_failed = ascii ''yt-dlp '' @ [0xB2E4, 0xC6B4, 0xB85C, 0xB4DC] @ ascii '' ''
     @ [0xC2E4, 0xD328] @ ascii '': ''"

definition msg_ytdlp_generic :: ustring where
  "msg_ytdlp_generic = [0xC54C] @ ascii '' '' @ [0xC218] @ ascii '' '' @ [0xC5C6, 0xB294] @ ascii '' ''
     @ [0xC624, 0xB958, 0xAC00] @ ascii '' '' @ [0xBC1C, 0xC0DD, 0xD588, 0xC2B5, 0xB2C8, 0xB2E4]
     @ ascii ''.''"

definition msg_ytdlp_no_wav :: ustring where
  "msg_ytdlp_no_wav = ascii ''yt-dlp '' @ [0xB2E4, 0xC6B4, 0xB85C, 0xB4DC, 0xC5D0] @ ascii '' ''
     @ [0xC131, 0xACF5, 0xD588, 0xC9C0, 0xB9CC] @ ascii '' wav '' @ [0xD30C, 0xC77C, 0xC744]
     @ ascii '' '' @ [0xCC3E, 0xC9C0] @ ascii '' '' @ [0xBABB, 0xD588, 0xC2B5, 0xB2C8, 0xB2E4]
     @ ascii ''.''"

definition msg_whisper_generic :: ustring where
  "msg_whisper_generic = ascii ''whisper-cli failed with an unknown error.''"

definition msg_txt_missing :: ustring where
  "msg_txt_missing = [0xC804, 0xC0AC] @ ascii '' '' @ [0xACB0, 0xACFC] @ ascii '' ''
     @ [0xD30C, 0xC77C, 0xC744] @ ascii '' '' @ [0xCC3E, 0xC744] @ ascii '' '' @ [0xC218]
     @ ascii '' '' @ [0xC5C6, 0xC2B5, 0xB2C8, 0xB2E4] @ ascii '': ''"

definition msg_need_upload :: ustring where
  "msg_need_upload = [0xBA3C, 0xC800] @ ascii '' '' @ [0xD30C, 0xC77C, 0xC744] @ ascii '' ''
     @ [0xC5C5, 0xB85C, 0xB4DC, 0xD558, 0xC138, 0xC694] @ ascii ''.''"

definition msg_need_url :: ustring where
  "msg_need_url = [0xBA3C, 0xC800] @ ascii '' YouTube '' @ [0xB9C1, 0xD06C, 0xB97C] @ ascii '' ''
     @ [0xC785, 0xB825, 0xD558, 0xC138, 0xC694] @ ascii ''.''"

definition msg_none_has_no_name :: ustring where
  "msg_none_has_no_name = [39] @ ascii ''NoneType'' @ [39] @ ascii '' object has no attribute ''
     @ [39] @ ascii ''name'' @ [39]"

section \<open>The program\<close>

record uploaded_file =
  file_name :: ustring
  getbuffer :: "nat list"

definition save_uploaded_file :: "config \<Rightarrow> uploaded_file \<Rightarrow> world \<Rightarrow> path \<times> world" where
  "save_uploaded_file cfg uploaded w =
     (let w1 = mkdir_parents (youtube_download_dir cfg) w;
          output_path = \<lparr>parent = youtube_download_dir cfg, name = file_name uploaded\<rparr>
      in (output_path, w1\<lparr>fs := (fs w1)(output_path \<mapsto> getbuffer uploaded)\<rparr>))"

definition prepare_audio_file :: "system \<Rightarrow> path \<Rightarrow> world \<Rightarrow> (pyexn + path) \<times> world" where
  "prepare_audio_file sys input_path w =
     (let sfx = py_lower (unicode_lower sys) (suffix input_path)
      in if sfx \<notin> {ascii ''.wav'', ascii ''.mp3'', ascii ''.mp4'', ascii ''.m4a''}
         then (Inl (ValueError (msg_unsupported @ sfx)), w)
         else if sfx = ascii ''.wav'' then (Inr input_path, w)
         else
           let output_path = with_suffix input_path (ascii ''.wav'');
               cmd = [ascii ''ffmpeg'', ascii ''-y'', ascii ''-i'', path_str input_path,
                      ascii ''-vn'', path_str output_path]
           in case subprocess_run sys cmd None w of
                (Inl exc, w1) \<Rightarrow> (Inl (RuntimeError msg_ffmpeg_missing), w1)
              | (Inr result, w1) \<Rightarrow>
                  if returncode result \<noteq> 0 \<or> \<not> path_exists w1 output_path
                  then
                    let w2 = unlink_missing_ok output_path w1;
                        msg = por (py_strip (stderr result))
                                (por (py_strip (stdout result)) msg_ffmpeg_generic)
                    in (Inl (RuntimeError (msg_ffmpeg_failed @ msg)), w2)
                  else (Inr output_path, w1))"

definition download_youtube_audio ::
  "config \<Rightarrow> system \<Rightarrow> ustring \<Rightarrow> world \<Rightarrow> (pyexn + path) \<times> world" where
  "download_youtube_audio cfg sys url w =
     (let w0 = mkdir_parents (youtube_download_dir cfg) w;
          output_filename =
            ascii ''youtube_'' @ take 8 (uuid4_hex sys (uuid_count w0)) @ ascii ''.wav'';
          w1 = w0\<lparr>uuid_count := Suc (uuid_count w0)\<rparr>;
          output_path = \<lparr>parent = youtube_download_dir cfg, name = output_filename\<rparr>;
          cmd = [ascii ''yt-dlp'', ascii ''-x'', ascii ''--audio-format'', ascii ''wav'',
                 ascii ''-o'', path_str output_path, url]
      in case subprocess_run sys cmd None w1 of
           (Inl exc, w2) \<Rightarrow> (Inl (RuntimeError msg_ytdlp_missing), w2)
         | (Inr result, w2) \<Rightarrow>
             if returncode result \<noteq> 0
             then (Inl (RuntimeError (msg_ytdlp_failed @
                     por (py_strip (stderr result))
                       (por (py_strip (stdout result)) msg_ytdlp_generic))), w2)
             else if \<not> path_exists w2 output_path
             then (Inl (RuntimeError msg_ytdlp_no_wav), w2)
             else (Inr output_path, w2))"

definition build_command :: "config \<Rightarrow> path \<Rightarrow> ustring list" where
  "build_command cfg audio_path =
     [whisper_cli cfg, ascii ''-m'', model_path cfg, ascii ''-f'', path_str audio_path,
      ascii ''-l'', ascii ''ko'', ascii ''-otxt'']"

text \<open>
  \<open>Path(str(audio_path) + ".txt")\<close> appends to the final component. The
  \<open>FileNotFoundError\<close> of \<open>subprocess.run\<close> is not caught here and leaves the function.
\<close>

definition run_whisper_cli ::
  "config \<Rightarrow> system \<Rightarrow> path \<Rightarrow> ustring \<Rightarrow> world
     \<Rightarrow> (pyexn + ustring \<times> ustring option) \<times> world" where
  "run_whisper_cli cfg sys audio_path cuda_device w =
     (let cmd = build_command cfg audio_path;
          env = environ w;
          env = env(ascii ''CUDA_VISIBLE_DEVICES'' \<mapsto> cuda_device)
      in case subprocess_run sys cmd (Some env) w of
           (Inl exc, w1) \<Rightarrow> (Inl (FileNotFoundError exc), w1)
         | (Inr result, w1) \<Rightarrow>
             let out = py_strip (stdout result);
                 err = py_strip (stderr result)
             in if returncode result \<noteq> 0
                then (Inr ([], Some (por err (por out msg_whisper_generic))), w1)
                else
                  let txt_path = audio_path\<lparr>name := name audio_path @ ascii ''.txt''\<rparr>
                  in (case fs w1 txt_path of
                        None \<Rightarrow> (Inr ([], Some (msg_txt_missing @ path_str txt_path)), w1)
                      | Some bytes \<Rightarrow> (Inr (py_strip (utf8_decode sys bytes), None), w1)))"

datatype mode = FileUpload | YouTubeURL

text \<open>What the widgets and the command line hand to one execution of \<open>main\<close>.\<close>

record ui =
  input_mode :: mode
  uploaded :: "uploaded_file option"
  youtube_url :: ustring
  start_button :: bool
  cuda_device :: ustring

definition set_transcription :: "ustring \<Rightarrow> world \<Rightarrow> world" where
  "set_transcription t w = w\<lparr>session := (session w)\<lparr>transcription := t\<rparr>\<rparr>"

definition set_last_error :: "ustring \<Rightarrow> world \<Rightarrow> world" where
  "set_last_error e w = w\<lparr>session := (session w)\<lparr>last_error := e\<rparr>\<rparr>"

text \<open>
  The body of the \<open>try\<close> block of \<open>main\<close>; \<open>Inl\<close> is an exception that reaches the
  \<open>except Exception\<close> clause. \<open>if error\<close> is true for a non-empty string only.
\<close>

definition main_try :: "config \<Rightarrow> system \<Rightarrow> ui \<Rightarrow> world \<Rightarrow> (pyexn + unit) \<times> world" where
  "main_try cfg sys u w =
     (case (if input_mode u = FileUpload
            then (case uploaded u of
                    None \<Rightarrow> (Inl (AttributeError msg_none_has_no_name),
                              mkdir_parents (youtube_download_dir cfg) w)
                  | Some f \<Rightarrow> (case save_uploaded_file cfg f w of (p, w1) \<Rightarrow> (Inr p, w1)))
            else download_youtube_audio cfg sys (py_strip (youtube_url u)) w) of
        (Inl exc, w1) \<Rightarrow> (Inl exc, w1)
      | (Inr source_path, w1) \<Rightarrow>
          (case prepare_audio_file sys source_path w1 of
             (Inl exc, w2) \<Rightarrow> (Inl exc, w2)
           | (Inr prepared_audio_path, w2) \<Rightarrow>
               (case run_whisper_cli cfg sys prepared_audio_path (cuda_device u) w2 of
                  (Inl exc, w3) \<Rightarrow> (Inl exc, w3)
                | (Inr (text, error), w3) \<Rightarrow>
                    (Inr (),
                     if error \<noteq> None \<and> error \<noteq> Some []
                     then set_last_error (the error) w3
                     else set_transcription text w3))))"

text \<open>
  One execution of \<open>main\<close> from the button on. \<open>temp_paths\<close> is the set built by
  \<open>set()\<close>, to which the source adds nothing; the \<open>finally\<close> clause unlinks its members.
  The page re-run that ends \<open>main\<close> only redraws the widgets and is left out.
\<close>

definition temp_paths :: "path list" where
  "temp_paths = []"

definition main :: "config \<Rightarrow> system \<Rightarrow> ui \<Rightarrow> world \<Rightarrow> world" where
  "main cfg sys u w =
     (if \<not> start_button u then w
      else
        let w0 = set_last_error [] (set_transcription [] w)
        in if input_mode u = FileUpload \<and> uploaded u = None
           then set_last_error msg_need_upload w0
           else if input_mode u = YouTubeURL \<and> py_strip (youtube_url u) = []
           then set_last_error msg_need_url w0
           else
             let w2 = (case main_try cfg sys u w0 of
                         (Inl exc, w1) \<Rightarrow> set_last_error (exn_str exc) w1
                       | (Inr _, w1) \<Rightarrow> w1)
             in fold unlink_missing_ok temp_paths w2)"

section \<open>Concrete collaborators\<close>

text \<open>
  A scripted system for evaluating the program on concrete inputs: each executable that is
  installed has one step (exit code, captured output, files it writes); any other
  executable cannot be located.
\<close>

record step =
  exit_code :: int
  out_text :: ustring
  err_text :: ustring
  writes :: "(path \<times> nat list) list"

definition scripted_spawn ::
  "(ustring \<Rightarrow> step option) \<Rightarrow> ustring list \<Rightarrow> environment \<Rightarrow> files \<Rightarrow> outcome" where
  "scripted_spawn script cmd env f =
     (case cmd of
        [] \<Rightarrow> NotFound []
      | prog # args \<Rightarrow>
          (case script prog of
             None \<Rightarrow> NotFound (ascii ''[WinError 2] The system cannot find the file specified'')
           | Some s \<Rightarrow>
               Exited (exit_code s) (out_text s) (err_text s)
                 (fold (\<lambda>(p, d) g. g(p \<mapsto> d)) (writes s) f)))"

definition scripted_system :: "(ustring \<Rightarrow> step option) \<Rightarrow> system" where
  "scripted_system script =
     \<lparr>unicode_lower = (\<lambda>s. s),
      utf8_decode = (\<lambda>bs. bs),
      uuid4_hex = (\<lambda>n. ascii ''3f2a9c4e5b6d4f708192a3b4c5d6e7f8''),
      spawn = scripted_spawn script\<rparr>"

definition demo_config :: config where
  "demo_config =
     \<lparr>whisper_cli = ascii ''whisper-cli.exe'',
      model_path = ascii ''ggml-base.bin'',
      youtube_download_dir = ascii ''downloaded''\<rparr>"

definition empty_world :: world where
  "empty_world =
     \<lparr>fs = Map.empty,
      dirs = {},
      environ = [ascii ''PATH'' \<mapsto> ascii ''C:/tools''],
      run_log = [],
      uuid_count = 0,
      session = \<lparr>transcription = [], last_error = []\<rparr>\<rparr>"

definition in_downloads :: "string \<Rightarrow> path" where
  "in_downloads n = \<lparr>parent = ascii ''downloaded'', name = ascii n\<rparr>"

definition upload_ui :: "string \<Rightarrow> ui" where
  "upload_ui n =
     \<lparr>input_mode = FileUpload,
      uploaded = Some \<lparr>file_name = ascii n, getbuffer = [0x52, 0x49, 0x46, 0x46]\<rparr>,
      youtube_url = [],
      start_button = True,
      cuda_device = ascii ''0''\<rparr>"

definition url_ui :: "string \<Rightarrow> ui" where
  "url_ui url =
     \<lparr>input_mode = YouTubeURL,
      uploaded = None,
      youtube_url = ascii url,
      start_button = True,
      cuda_device = ascii ''0''\<rparr>"

definition ffmpeg_fails :: "ustring \<Rightarrow> step option" where
  "ffmpeg_fails =
     [ascii ''ffmpeg'' \<mapsto>
        \<lparr>exit_code = 1, out_text = [],
         err_text = ascii ''clip.mp4: Invalid data found '',
         writes = [(in_downloads ''clip.wav'', [0x52, 0x49])]\<rparr>]"

definition whisper_writes_nothing :: "ustring \<Rightarrow> step option" where
  "whisper_writes_nothing =
     [ascii ''whisper-cli.exe'' \<mapsto>
        \<lparr>exit_code = 0, out_text = [], err_text = [], writes = []\<rparr>]"

definition whisper_fails :: "ustring \<Rightarrow> step option" where
  "whisper_fails =
     [ascii ''whisper-cli.exe'' \<mapsto>
        \<lparr>exit_code = 3, out_text = ascii ''loading model '',
         err_text = ascii '' error: failed to open model '', writes = []\<rparr>]"

definition transcode_and_transcribe :: "ustring \<Rightarrow> step option" where
  "transcode_and_transcribe =
     [ascii ''ffmpeg'' \<mapsto>
        \<lparr>exit_code = 0, out_text = [], err_text = [],
         writes = [(in_downloads ''clip.wav'', [0x52, 0x49, 0x46, 0x46])]\<rparr>,
      ascii ''whisper-cli.exe'' \<mapsto>
        \<lparr>exit_code = 0, out_text = [], err_text = [],
         writes = [(in_downloads ''clip.wav.txt'', ascii ''hello world'')]\<rparr>]"


definition ytdlp_writes_nothing :: "ustring \<Rightarrow> step option" where
  "ytdlp_writes_nothing =
     [ascii ''yt-dlp'' \<mapsto>
        \<lparr>exit_code = 0, out_text = [], err_text = ascii ''ERROR: no audio stream'',
         writes = []\<rparr>]"

definition ytdlp_downloads :: "ustring \<Rightarrow> step option" where
  "ytdlp_downloads =
     [ascii ''yt-dlp'' \<mapsto>
        \<lparr>exit_code = 0, out_text = ascii ''[download] 100%'', err_text = [],
         writes = [(in_downloads ''youtube_3f2a9c4e.wav'', [0x52, 0x49, 0x46, 0x46])]\<rparr>]"

text \<open>
  A text occurs in a message when it is a contiguous run of the message's characters.
\<close>

fun occurs_in :: "ustring \<Rightarrow> ustring \<Rightarrow> bool" where
  "occurs_in t [] = (t = [])"
| "occurs_in t (x # xs) = (take (length t) (x # xs) = t \<or> occurs_in t xs)"

section \<open>Normalisation: the whitelist and the fast path\<close>

lemma prepare_rejects:
  "py_lower (unicode_lower sys) (suffix p)
       \<notin> {ascii ''.wav'', ascii ''.mp3'', ascii ''.mp4'', ascii ''.m4a''}
   \<Longrightarrow> prepare_audio_file sys p w =
           (Inl (ValueError (msg_unsupported @ py_lower (unicode_lower sys) (suffix p))), w)"
  unfolding prepare_audio_file_def Let_def by (simp only: simp_thms if_True)

lemma prepare_accepts:
  "py_lower (unicode_lower sys) (suffix p)
       \<in> {ascii ''.wav'', ascii ''.mp3'', ascii ''.mp4'', ascii ''.m4a''}
   \<Longrightarrow> fst (prepare_audio_file sys p w) \<noteq> Inl (ValueError m)"
  unfolding prepare_audio_file_def Let_def
  by (simp only: not_not if_False if_True split: if_split prod.split sum.split) simp

lemma py_lower_wav: "py_lower f (ascii ''.wav'') = ascii ''.wav''"
  by (simp add: py_lower_def is_ascii_def ascii_def ascii_lower_def)

lemma differs_only_in_case_lower:
  "differs_only_in_case a b \<Longrightarrow> py_lower f a = map ascii_lower b"
proof -
  assume h: "differs_only_in_case a b"
  then have "list_all (\<lambda>c. c < 128) a"
    unfolding differs_only_in_case_def
    by (induction a b rule: list_all2_induct) simp_all
  moreover from h have "map ascii_lower a = map ascii_lower b"
    unfolding differs_only_in_case_def
    by (induction a b rule: list_all2_induct) simp_all
  ultimately show ?thesis
    by (simp add: py_lower_def is_ascii_def)
qed

lemma whitelist_lower_fixed:
  "e \<in> {ascii ''.wav'', ascii ''.mp3'', ascii ''.mp4'', ascii ''.m4a''} \<Longrightarrow> map ascii_lower e = e"
  by (auto simp add: ascii_def ascii_lower_def)

text \<open>
  C3. A path whose suffix is \<open>.wav\<close> is returned as it is, and the world is the one the
  call started from: no file is created and \<open>subprocess.run\<close> is not called.
\<close>

theorem prepare_audio_file_wav_identity:
  "suffix p = ascii ''.wav'' \<Longrightarrow> prepare_audio_file sys p w = (Inr p, w)"
  by (simp add: prepare_audio_file_def py_lower_wav)

theorem prepare_audio_file_wav_identity_witness:
  "suffix (in_downloads ''sample.wav'') = ascii ''.wav'' \<and>
   prepare_audio_file (scripted_system Map.empty) (in_downloads ''sample.wav'') empty_world
     = (Inr (in_downloads ''sample.wav''), empty_world)"
proof -
  have h: "suffix (in_downloads ''sample.wav'') = ascii ''.wav''"
    by (simp add: suffix_def in_downloads_def ascii_def)
  show ?thesis
    using h prepare_audio_file_wav_identity [OF h] by simp
qed

text \<open>
  C5. The extension is the lower-cased suffix, as the program compares it. Outside the
  whitelist the call raises the \<open>ValueError\<close> of an unsupported format and leaves the
  world untouched, so nothing was launched; inside the whitelist that error is not raised.
\<close>

theorem prepare_audio_file_whitelist:
  "(py_lower (unicode_lower sys) (suffix p)
       \<notin> {ascii ''.wav'', ascii ''.mp3'', ascii ''.mp4'', ascii ''.m4a''}
     \<longrightarrow> prepare_audio_file sys p w =
           (Inl (ValueError (msg_unsupported @ py_lower (unicode_lower sys) (suffix p))), w)) \<and>
   (py_lower (unicode_lower sys) (suffix p)
       \<in> {ascii ''.wav'', ascii ''.mp3'', ascii ''.mp4'', ascii ''.m4a''}
     \<longrightarrow> (\<forall>m. fst (prepare_audio_file sys p w) \<noteq> Inl (ValueError m)))"
  using prepare_rejects [of sys p w] prepare_accepts [of sys p w] by blast

lemma suffix_notes: "suffix (in_downloads ''notes.txt'') = ascii ''.txt''"
  by (simp add: suffix_def in_downloads_def ascii_def)

lemma suffix_clip: "suffix (in_downloads ''clip.mp4'') = ascii ''.mp4''"
  by (simp add: suffix_def in_downloads_def ascii_def)

lemma lower_txt: "py_lower f (ascii ''.txt'') = ascii ''.txt''"
  by (simp add: py_lower_def is_ascii_def ascii_def ascii_lower_def)

lemma lower_mp4: "py_lower f (ascii ''.mp4'') = ascii ''.mp4''"
  by (simp add: py_lower_def is_ascii_def ascii_def ascii_lower_def)

theorem prepare_audio_file_whitelist_witness:
  "prepare_audio_file (scripted_system Map.empty) (in_downloads ''notes.txt'') empty_world
     = (Inl (ValueError (msg_unsupported @ ascii ''.txt'')), empty_world) \<and>
   fst (prepare_audio_file (scripted_system Map.empty) (in_downloads ''clip.mp4'') empty_world)
     \<noteq> Inl (ValueError (msg_unsupported @ ascii ''.mp4''))"
proof -
  have a: "py_lower (unicode_lower (scripted_system Map.empty)) (suffix (in_downloads ''notes.txt''))
             \<notin> {ascii ''.wav'', ascii ''.mp3'', ascii ''.mp4'', ascii ''.m4a''}"
    by (simp add: suffix_notes lower_txt) (simp add: ascii_def)
  have b: "py_lower (unicode_lower (scripted_system Map.empty)) (suffix (in_downloads ''clip.mp4''))
             \<in> {ascii ''.wav'', ascii ''.mp3'', ascii ''.mp4'', ascii ''.m4a''}"
    by (simp add: suffix_clip lower_mp4)
  from a prepare_audio_file_whitelist [of "scripted_system Map.empty" "in_downloads ''notes.txt''" empty_world]
  have "prepare_audio_file (scripted_system Map.empty) (in_downloads ''notes.txt'') empty_world
     = (Inl (ValueError (msg_unsupported @ ascii ''.txt'')), empty_world)"
    by (simp add: suffix_notes lower_txt)
  moreover from b prepare_audio_file_whitelist [of "scripted_system Map.empty" "in_downloads ''clip.mp4''" empty_world]
  have "fst (prepare_audio_file (scripted_system Map.empty) (in_downloads ''clip.mp4'') empty_world)
     \<noteq> Inl (ValueError (msg_unsupported @ ascii ''.mp4''))"
    by blast
  ultimately show ?thesis by blast
qed

text \<open>
  C10. A suffix that differs from a whitelisted extension only in letter case is accepted,
  and one that differs only in case from \<open>.wav\<close> takes the fast path: the path comes
  back unchanged and so does the world.
\<close>

theorem prepare_audio_file_case_insensitive:
  assumes "e \<in> {ascii ''.wav'', ascii ''.mp3'', ascii ''.mp4'', ascii ''.m4a''}"
    and "differs_only_in_case (suffix p) e"
  shows "(\<forall>m. fst (prepare_audio_file sys p w) \<noteq> Inl (ValueError m)) \<and>
         (e = ascii ''.wav'' \<longrightarrow> prepare_audio_file sys p w = (Inr p, w))"
proof -
  have "py_lower (unicode_lower sys) (suffix p) = map ascii_lower e"
    using assms(2) by (rule differs_only_in_case_lower)
  also have "\<dots> = e"
    using assms(1) by (rule whitelist_lower_fixed)
  finally have low: "py_lower (unicode_lower sys) (suffix p) = e" .
  have acc: "py_lower (unicode_lower sys) (suffix p)
       \<in> {ascii ''.wav'', ascii ''.mp3'', ascii ''.mp4'', ascii ''.m4a''}"
    unfolding low by (rule assms(1))
  have "\<forall>m. fst (prepare_audio_file sys p w) \<noteq> Inl (ValueError m)"
    using prepare_accepts [OF acc] by blast
  moreover have "e = ascii ''.wav'' \<longrightarrow> prepare_audio_file sys p w = (Inr p, w)"
  proof
    assume "e = ascii ''.wav''"
    with low have "py_lower (unicode_lower sys) (suffix p) = ascii ''.wav''" by simp
    then show "prepare_audio_file sys p w = (Inr p, w)"
      by (simp add: prepare_audio_file_def)
  qed
  ultimately show ?thesis by blast
qed

lemma suffix_upper: "suffix (in_downloads ''TALK.WAV'') = ascii ''.WAV''"
  by (simp add: suffix_def in_downloads_def ascii_def)

theorem prepare_audio_file_case_insensitive_witness:
  "differs_only_in_case (suffix (in_downloads ''TALK.WAV'')) (ascii ''.wav'') \<and>
   prepare_audio_file (scripted_system Map.empty) (in_downloads ''TALK.WAV'') empty_world
     = (Inr (in_downloads ''TALK.WAV''), empty_world)"
proof -
  have a: "ascii ''.wav'' \<in> {ascii ''.wav'', ascii ''.mp3'', ascii ''.mp4'', ascii ''.m4a''}"
    by simp
  have b: "differs_only_in_case (suffix (in_downloads ''TALK.WAV'')) (ascii ''.wav'')"
    by (simp add: suffix_upper differs_only_in_case_def ascii_def ascii_lower_def)
  show ?thesis
    using b prepare_audio_file_case_insensitive [OF a b] by simp
qed

section \<open>Launching processes\<close>

lemma subprocess_run_exited:
  "spawn sys cmd (case env of None \<Rightarrow> environ w | Some e \<Rightarrow> e) (fs w) = Exited rc out err fs'
   \<Longrightarrow> subprocess_run sys cmd env w =
         (Inr (Completed rc out err),
          w\<lparr>run_log := run_log w @ [(cmd, case env of None \<Rightarrow> environ w | Some e \<Rightarrow> e)],
            fs := fs'\<rparr>)"
  by (simp add: subprocess_run_def Let_def)

lemma subprocess_run_not_found:
  "spawn sys cmd (case env of None \<Rightarrow> environ w | Some e \<Rightarrow> e) (fs w) = NotFound m
   \<Longrightarrow> subprocess_run sys cmd env w =
         (Inl m, w\<lparr>run_log := run_log w @ [(cmd, case env of None \<Rightarrow> environ w | Some e \<Rightarrow> e)]\<rparr>)"
  by (simp add: subprocess_run_def Let_def)


lemma por_if: "por a (por b c) = (if a \<noteq> [] then a else if b \<noteq> [] then b else c)"
  by (simp add: por_def)

lemma transcoded_suffix:
  "s \<in> {ascii ''.mp3'', ascii ''.mp4'', ascii ''.m4a''}
   \<Longrightarrow> s \<in> {ascii ''.wav'', ascii ''.mp3'', ascii ''.mp4'', ascii ''.m4a''} \<and> s \<noteq> ascii ''.wav''"
  by (auto simp add: ascii_def)

section \<open>Normalisation: a failed transcoder run\<close>

lemma with_suffix_clip:
  "with_suffix (in_downloads ''clip.mp4'') (ascii ''.wav'') = in_downloads ''clip.wav''"
  by (simp add: with_suffix_def suffix_def in_downloads_def ascii_def)

text \<open>
  C4. The transcoder is launched for a whitelisted suffix other than \<open>.wav\<close>. When it
  exits non-zero, or exits and leaves no file at the sibling \<open>.wav\<close> path, the call
  raises a \<open>RuntimeError\<close> whose message carries the stripped standard error, else the
  stripped standard output, else a fixed text; and in the world it leaves behind there is no
  file at the sibling path.
\<close>

theorem prepare_audio_file_transcode_failure:
  assumes sfx: "py_lower (unicode_lower sys) (suffix p) \<in> {ascii ''.mp3'', ascii ''.mp4'', ascii ''.m4a''}"
    and run: "spawn sys [ascii ''ffmpeg'', ascii ''-y'', ascii ''-i'', path_str p, ascii ''-vn'',
                         path_str (with_suffix p (ascii ''.wav''))] (environ w) (fs w)
              = Exited rc out err fs'"
    and bad: "rc \<noteq> 0 \<or> fs' (with_suffix p (ascii ''.wav'')) = None"
  shows "fst (prepare_audio_file sys p w) =
           Inl (RuntimeError (msg_ffmpeg_failed @
             (if py_strip err \<noteq> [] then py_strip err
              else if py_strip out \<noteq> [] then py_strip out
              else msg_ffmpeg_generic))) \<and>
         fs (snd (prepare_audio_file sys p w)) (with_suffix p (ascii ''.wav'')) = None"
proof -
  let ?cmd = "[ascii ''ffmpeg'', ascii ''-y'', ascii ''-i'', path_str p, ascii ''-vn'',
               path_str (with_suffix p (ascii ''.wav''))]"
  from transcoded_suffix [OF sfx]
  have inw: "py_lower (unicode_lower sys) (suffix p)
               \<in> {ascii ''.wav'', ascii ''.mp3'', ascii ''.mp4'', ascii ''.m4a''}"
    and nowav: "py_lower (unicode_lower sys) (suffix p) \<noteq> ascii ''.wav''"
    by blast+
  have sr: "subprocess_run sys ?cmd None w =
         (Inr (Completed rc out err),
          w\<lparr>run_log := run_log w @ [(?cmd, environ w)], fs := fs'\<rparr>)"
    using run by (simp add: subprocess_run_def Let_def)
  have "prepare_audio_file sys p w =
          (Inl (RuntimeError (msg_ffmpeg_failed @ por (py_strip err) (por (py_strip out) msg_ffmpeg_generic))),
           unlink_missing_ok (with_suffix p (ascii ''.wav''))
             (w\<lparr>run_log := run_log w @ [(?cmd, environ w)], fs := fs'\<rparr>))"
    unfolding prepare_audio_file_def Let_def
    using inw nowav bad by (simp only: sr) (auto simp add: path_exists_def)
  then show ?thesis
    by (simp add: por_if unlink_missing_ok_def)
qed

theorem prepare_audio_file_transcode_failure_witness:
  "fst (prepare_audio_file (scripted_system ffmpeg_fails) (in_downloads ''clip.mp4'') empty_world)
     = Inl (RuntimeError (msg_ffmpeg_failed @ ascii ''clip.mp4: Invalid data found'')) \<and>
   fs (snd (prepare_audio_file (scripted_system ffmpeg_fails) (in_downloads ''clip.mp4'')
              empty_world)) (in_downloads ''clip.wav'') = None"
proof -
  have a: "py_lower (unicode_lower (scripted_system ffmpeg_fails)) (suffix (in_downloads ''clip.mp4''))
             \<in> {ascii ''.mp3'', ascii ''.mp4'', ascii ''.m4a''}"
    by (simp add: suffix_clip lower_mp4)
  have b: "spawn (scripted_system ffmpeg_fails)
             [ascii ''ffmpeg'', ascii ''-y'', ascii ''-i'', path_str (in_downloads ''clip.mp4''),
              ascii ''-vn'', path_str (with_suffix (in_downloads ''clip.mp4'') (ascii ''.wav''))]
             (environ empty_world) (fs empty_world)
           = Exited 1 [] (ascii ''clip.mp4: Invalid data found '')
               ((fs empty_world)(in_downloads ''clip.wav'' \<mapsto> [0x52, 0x49]))"
    by (simp add: scripted_system_def scripted_spawn_def ffmpeg_fails_def)
  have c: "(1::int) \<noteq> 0 \<or>
           ((fs empty_world)(in_downloads ''clip.wav'' \<mapsto> [0x52, 0x49]))
             (with_suffix (in_downloads ''clip.mp4'') (ascii ''.wav'')) = None"
    by simp
  have d: "py_strip (ascii ''clip.mp4: Invalid data found '') = ascii ''clip.mp4: Invalid data found''"
    by (simp add: py_strip_def ascii_def py_isspace_def)
  have e: "ascii ''clip.mp4: Invalid data found'' \<noteq> []"
    by (simp add: ascii_def)
  from prepare_audio_file_transcode_failure [OF a b c] show ?thesis
    by (simp add: d e with_suffix_clip)
qed

section \<open>Transcription\<close>

text \<open>
  C6. When the engine exits zero and there is no file at \<open>audio_path + ".txt"\<close>, the call
  returns normally (\<open>Inr\<close>) with empty text and the message that the result file was
  not found, which names that path.
\<close>

theorem run_whisper_cli_result_missing:
  assumes run: "spawn sys (build_command cfg p)
                  ((environ w)(ascii ''CUDA_VISIBLE_DEVICES'' \<mapsto> d)) (fs w) = Exited 0 out err fs'"
    and missing: "fs' (p\<lparr>name := name p @ ascii ''.txt''\<rparr>) = None"
  shows "fst (run_whisper_cli cfg sys p d w) =
           Inr ([], Some (msg_txt_missing @ path_str (p\<lparr>name := name p @ ascii ''.txt''\<rparr>)))"
proof -
  have sr: "subprocess_run sys (build_command cfg p)
              (Some ((environ w)(ascii ''CUDA_VISIBLE_DEVICES'' \<mapsto> d))) w =
         (Inr (Completed 0 out err),
          w\<lparr>run_log := run_log w @ [(build_command cfg p, (environ w)(ascii ''CUDA_VISIBLE_DEVICES'' \<mapsto> d))],
            fs := fs'\<rparr>)"
    using run by (simp add: subprocess_run_def Let_def)
  show ?thesis
    unfolding run_whisper_cli_def Let_def by (simp add: sr missing)
qed

theorem run_whisper_cli_result_missing_witness:
  "fst (run_whisper_cli demo_config (scripted_system whisper_writes_nothing)
          (in_downloads ''sample.wav'') (ascii ''0'') empty_world)
     = Inr ([], Some (msg_txt_missing @ ascii ''downloaded'' @ os_sep @ ascii ''sample.wav.txt''))"
proof -
  have a: "spawn (scripted_system whisper_writes_nothing)
             (build_command demo_config (in_downloads ''sample.wav''))
             ((environ empty_world)(ascii ''CUDA_VISIBLE_DEVICES'' \<mapsto> ascii ''0''))
             (fs empty_world)
           = Exited 0 [] [] (fs empty_world)"
    by (simp add: scripted_system_def scripted_spawn_def whisper_writes_nothing_def
          build_command_def demo_config_def)
  have b: "fs empty_world ((in_downloads ''sample.wav'')\<lparr>name := name (in_downloads ''sample.wav'') @ ascii ''.txt''\<rparr>) = None"
    by (simp add: empty_world_def)
  from run_whisper_cli_result_missing [OF a b] show ?thesis
    by (simp add: path_str_def in_downloads_def ascii_def)
qed

text \<open>
  C7. When the engine exits non-zero, the call returns normally with empty text and, as the
  error, the stripped standard error if non-empty, else the stripped standard output if
  non-empty, else the fixed message.
\<close>

theorem run_whisper_cli_nonzero_exit:
  assumes run: "spawn sys (build_command cfg p)
                  ((environ w)(ascii ''CUDA_VISIBLE_DEVICES'' \<mapsto> d)) (fs w) = Exited rc out err fs'"
    and nz: "rc \<noteq> 0"
  shows "fst (run_whisper_cli cfg sys p d w) =
           Inr ([], Some (if py_strip err \<noteq> [] then py_strip err
                          else if py_strip out \<noteq> [] then py_strip out
                          else msg_whisper_generic))"
proof -
  have sr: "subprocess_run sys (build_command cfg p)
              (Some ((environ w)(ascii ''CUDA_VISIBLE_DEVICES'' \<mapsto> d))) w =
         (Inr (Completed rc out err),
          w\<lparr>run_log := run_log w @ [(build_command cfg p, (environ w)(ascii ''CUDA_VISIBLE_DEVICES'' \<mapsto> d))],
            fs := fs'\<rparr>)"
    using run by (simp add: subprocess_run_def Let_def)
  show ?thesis
    unfolding run_whisper_cli_def Let_def by (simp add: sr nz por_if)
qed

theorem run_whisper_cli_nonzero_exit_witness:
  "fst (run_whisper_cli demo_config (scripted_system whisper_fails)
          (in_downloads ''sample.wav'') (ascii ''0'') empty_world)
     = Inr ([], Some (ascii ''error: failed to open model''))"
proof -
  have a: "spawn (scripted_system whisper_fails)
             (build_command demo_config (in_downloads ''sample.wav''))
             ((environ empty_world)(ascii ''CUDA_VISIBLE_DEVICES'' \<mapsto> ascii ''0''))
             (fs empty_world)
           = Exited 3 (ascii ''loading model '') (ascii '' error: failed to open model '')
               (fs empty_world)"
    by (simp add: scripted_system_def scripted_spawn_def whisper_fails_def
          build_command_def demo_config_def)
  have b: "(3::int) \<noteq> 0" by simp
  have d: "py_strip (ascii '' error: failed to open model '') = ascii ''error: failed to open model''"
    by (simp add: py_strip_def ascii_def py_isspace_def)
  have e: "ascii ''error: failed to open model'' \<noteq> []"
    by (simp add: ascii_def)
  from run_whisper_cli_nonzero_exit [OF a b] show ?thesis
    by (simp add: d e)
qed



section \<open>Acquisition from a URL\<close>

lemma ytdlp_failed_not_missing: "msg_ytdlp_failed @ x \<noteq> msg_ytdlp_missing"
  by (simp add: msg_ytdlp_failed_def msg_ytdlp_missing_def msg_tool_missing_tail_def ascii_def)

lemma ytdlp_no_wav_not_missing: "msg_ytdlp_no_wav \<noteq> msg_ytdlp_missing"
  by (simp add: msg_ytdlp_no_wav_def msg_ytdlp_missing_def msg_tool_missing_tail_def ascii_def)

lemma download_youtube_audio_unfold:
  assumes op: "output_path = \<lparr>parent = youtube_download_dir cfg,
                  name = ascii ''youtube_'' @ take 8 (uuid4_hex sys (uuid_count w)) @ ascii ''.wav''\<rparr>"
    and cmd: "cmd = [ascii ''yt-dlp'', ascii ''-x'', ascii ''--audio-format'', ascii ''wav'',
                     ascii ''-o'', path_str output_path, url]"
  shows "download_youtube_audio cfg sys url w =
     (case spawn sys cmd (environ w) (fs w) of
        NotFound m \<Rightarrow>
          (Inl (RuntimeError msg_ytdlp_missing),
           w\<lparr>dirs := insert (youtube_download_dir cfg) (dirs w),
             uuid_count := Suc (uuid_count w),
             run_log := run_log w @ [(cmd, environ w)]\<rparr>)
      | Exited rc out err fs' \<Rightarrow>
          (if rc \<noteq> 0
           then Inl (RuntimeError (msg_ytdlp_failed @
                  (if py_strip err \<noteq> [] then py_strip err
                   else if py_strip out \<noteq> [] then py_strip out
                   else msg_ytdlp_generic)))
           else if fs' output_path = None then Inl (RuntimeError msg_ytdlp_no_wav)
           else Inr output_path,
           w\<lparr>dirs := insert (youtube_download_dir cfg) (dirs w),
             uuid_count := Suc (uuid_count w),
             run_log := run_log w @ [(cmd, environ w)],
             fs := fs'\<rparr>))"
  unfolding download_youtube_audio_def subprocess_run_def Let_def op cmd
  by (simp add: mkdir_parents_def path_exists_def por_def split: outcome.split)

text \<open>
  C8, as amended. The downloader is run as
  \<open>yt-dlp -x --audio-format wav -o <output_path> <url>\<close>. The call raises the error of a
  missing downloader exactly when the executable cannot be located, and some other
  \<open>RuntimeError\<close> exactly when the process exits non-zero or leaves no file at the output
  path. After a non-zero exit the message carries the stripped standard error, else the
  stripped standard output, else a fixed text; after a zero exit with the file absent the
  message is a fixed one. Otherwise the output path is returned.
\<close>

theorem download_youtube_audio_outcomes:
  assumes op: "output_path = \<lparr>parent = youtube_download_dir cfg,
                  name = ascii ''youtube_'' @ take 8 (uuid4_hex sys (uuid_count w)) @ ascii ''.wav''\<rparr>"
    and cmd: "cmd = [ascii ''yt-dlp'', ascii ''-x'', ascii ''--audio-format'', ascii ''wav'',
                     ascii ''-o'', path_str output_path, url]"
  shows "run_log (snd (download_youtube_audio cfg sys url w)) = run_log w @ [(cmd, environ w)] \<and>
         ((fst (download_youtube_audio cfg sys url w) = Inl (RuntimeError msg_ytdlp_missing))
            = (\<exists>m. spawn sys cmd (environ w) (fs w) = NotFound m)) \<and>
         (\<forall>rc out err fs'. spawn sys cmd (environ w) (fs w) = Exited rc out err fs' \<longrightarrow>
            fst (download_youtube_audio cfg sys url w) =
              (if rc \<noteq> 0
               then Inl (RuntimeError (msg_ytdlp_failed @
                      (if py_strip err \<noteq> [] then py_strip err
                       else if py_strip out \<noteq> [] then py_strip out
                       else msg_ytdlp_generic)))
               else if fs' output_path = None then Inl (RuntimeError msg_ytdlp_no_wav)
               else Inr output_path)) \<and>
         ((\<exists>m. fst (download_youtube_audio cfg sys url w) = Inl (RuntimeError m) \<and>
                m \<noteq> msg_ytdlp_missing)
            = (\<exists>rc out err fs'. spawn sys cmd (environ w) (fs w) = Exited rc out err fs' \<and>
                 (rc \<noteq> 0 \<or> fs' output_path = None)))"
proof (cases "spawn sys cmd (environ w) (fs w)")
  case (NotFound m)
  then show ?thesis
    by (simp add: download_youtube_audio_unfold [OF op cmd])
next
  case (Exited rc out err fs')
  then show ?thesis
    by (simp add: download_youtube_audio_unfold [OF op cmd]
          ytdlp_failed_not_missing ytdlp_no_wav_not_missing)
qed

theorem download_youtube_audio_outcomes_witness:
  "fst (download_youtube_audio demo_config (scripted_system ytdlp_downloads)
          (ascii ''https://youtu.be/abc'') empty_world)
     = Inr (in_downloads ''youtube_3f2a9c4e.wav'') \<and>
   run_log (snd (download_youtube_audio demo_config (scripted_system ytdlp_downloads)
          (ascii ''https://youtu.be/abc'') empty_world))
     = [([ascii ''yt-dlp'', ascii ''-x'', ascii ''--audio-format'', ascii ''wav'', ascii ''-o'',
          ascii ''downloaded'' @ os_sep @ ascii ''youtube_3f2a9c4e.wav'',
          ascii ''https://youtu.be/abc''], environ empty_world)]"
proof -
  let ?cmd = "[ascii ''yt-dlp'', ascii ''-x'', ascii ''--audio-format'', ascii ''wav'', ascii ''-o'',
               path_str (in_downloads ''youtube_3f2a9c4e.wav''), ascii ''https://youtu.be/abc'']"
  have op: "in_downloads ''youtube_3f2a9c4e.wav'' =
      \<lparr>parent = youtube_download_dir demo_config,
        name = ascii ''youtube_'' @
               take 8 (uuid4_hex (scripted_system ytdlp_downloads) (uuid_count empty_world)) @
               ascii ''.wav''\<rparr>"
    by (simp add: in_downloads_def demo_config_def scripted_system_def ascii_def)
  have cmd: "?cmd = ?cmd" by (rule refl)
  have sp: "spawn (scripted_system ytdlp_downloads) ?cmd (environ empty_world) (fs empty_world)
      = Exited 0 (ascii ''[download] 100%'') []
          ((fs empty_world)(in_downloads ''youtube_3f2a9c4e.wav'' \<mapsto> [0x52, 0x49, 0x46, 0x46]))"
    by (simp add: scripted_system_def scripted_spawn_def ytdlp_downloads_def)
  from download_youtube_audio_outcomes [OF op cmd] sp
  have "fst (download_youtube_audio demo_config (scripted_system ytdlp_downloads)
          (ascii ''https://youtu.be/abc'') empty_world)
     = Inr (in_downloads ''youtube_3f2a9c4e.wav'')"
    by simp
  moreover from download_youtube_audio_outcomes [OF op cmd]
  have "run_log (snd (download_youtube_audio demo_config (scripted_system ytdlp_downloads)
          (ascii ''https://youtu.be/abc'') empty_world))
     = run_log empty_world @ [(?cmd, environ empty_world)]"
    by blast
  ultimately show ?thesis
    by (simp add: path_str_def in_downloads_def empty_world_def)
qed

text \<open>
  C8 as stated fails where the downloader exits zero, prints a diagnostic and writes no
  file: the error raised is the fixed message, in which the diagnostic does not occur.
\<close>

theorem download_youtube_audio_missing_file_counterexample:
  "spawn (scripted_system ytdlp_writes_nothing)
     [ascii ''yt-dlp'', ascii ''-x'', ascii ''--audio-format'', ascii ''wav'', ascii ''-o'',
      path_str (in_downloads ''youtube_3f2a9c4e.wav''), ascii ''https://youtu.be/abc'']
     (environ empty_world) (fs empty_world)
     = Exited 0 [] (ascii ''ERROR: no audio stream'') (fs empty_world) \<and>
   fst (download_youtube_audio demo_config (scripted_system ytdlp_writes_nothing)
          (ascii ''https://youtu.be/abc'') empty_world)
     = Inl (RuntimeError msg_ytdlp_no_wav) \<and>
   \<not> occurs_in (ascii ''ERROR: no audio stream'') msg_ytdlp_no_wav"
proof -
  have "spawn (scripted_system ytdlp_writes_nothing)
     [ascii ''yt-dlp'', ascii ''-x'', ascii ''--audio-format'', ascii ''wav'', ascii ''-o'',
      path_str (in_downloads ''youtube_3f2a9c4e.wav''), ascii ''https://youtu.be/abc'']
     (environ empty_world) (fs empty_world)
     = Exited 0 [] (ascii ''ERROR: no audio stream'') (fs empty_world)"
    by (simp add: scripted_system_def scripted_spawn_def ytdlp_writes_nothing_def)
  moreover have "fst (download_youtube_audio demo_config (scripted_system ytdlp_writes_nothing)
          (ascii ''https://youtu.be/abc'') empty_world)
     = Inl (RuntimeError msg_ytdlp_no_wav)"
    by (simp add: download_youtube_audio_def subprocess_run_def Let_def scripted_system_def
          scripted_spawn_def ytdlp_writes_nothing_def demo_config_def empty_world_def
          mkdir_parents_def path_exists_def)
  moreover have "\<not> occurs_in (ascii ''ERROR: no audio stream'') msg_ytdlp_no_wav"
    by (simp add: msg_ytdlp_no_wav_def ascii_def)
  ultimately show ?thesis by blast
qed

section \<open>The controller\<close>








lemmas run_defs = main_def main_try_def save_uploaded_file_def prepare_audio_file_def
  run_whisper_cli_def subprocess_run_def build_command_def Let_def
  scripted_system_def scripted_spawn_def demo_config_def empty_world_def upload_ui_def
  in_downloads_def mkdir_parents_def set_last_error_def set_transcription_def
  temp_paths_def path_exists_def unlink_missing_ok_def
  suffix_def with_suffix_def py_lower_def is_ascii_def ascii_lower_def ascii_def
  path_str_def os_sep_def py_strip_def py_isspace_def por_def












text \<open>
  C1 fails on the program. An uploaded \<open>clip.mp4\<close> is transcoded to \<open>clip.wav\<close>, which did
  not exist before, and transcribed; when \<open>main\<close> has finished, \<open>clip.wav\<close> is still
  there next to \<open>clip.mp4\<close>, because nothing is ever added to \<open>temp_paths\<close>.
\<close>

theorem main_leaves_transcoded_file:
  "fs empty_world (in_downloads ''clip.wav'') = None \<and>
   fs (main demo_config (scripted_system transcode_and_transcribe) (upload_ui ''clip.mp4'')
         empty_world) (in_downloads ''clip.wav'') = Some [0x52, 0x49, 0x46, 0x46] \<and>
   fs (main demo_config (scripted_system transcode_and_transcribe) (upload_ui ''clip.mp4'')
         empty_world) (in_downloads ''clip.mp4'') = Some [0x52, 0x49, 0x46, 0x46] \<and>
   session (main demo_config (scripted_system transcode_and_transcribe) (upload_ui ''clip.mp4'')
         empty_world) = \<lparr>transcription = ascii ''hello world'', last_error = []\<rparr>"
  by (simp add: run_defs transcode_and_transcribe_def)

end
